theory Spec2Isabelle
  imports Main
begin

section \<open>Data model of the ant farm simulation\<close>

text \<open>
  The development follows \<^verbatim>\<open>Task2_SE/main.cpp\<close>. The spec calls an \<^verbatim>\<open>Ant\<close> an
  Entity, \<^verbatim>\<open>AntType::QUEEN\<close> the Leader kind, an \<^verbatim>\<open>AntFarm\<close> a Colony, the
  \<^verbatim>\<open>Meadow\<close> the World, \<^verbatim>\<open>act\<close> the entity's \<^verbatim>\<open>step()\<close>, \<^verbatim>\<open>consumeFood\<close> its
  \<^verbatim>\<open>withdraw\<close>, \<^verbatim>\<open>setQueen\<close> is \<^verbatim>\<open>setLeader\<close>, \<^verbatim>\<open>AntFarm::tick\<close> is
  \<^verbatim>\<open>Colony.step()\<close>, \<^verbatim>\<open>isActiveColony\<close> is \<^verbatim>\<open>isAlive\<close> and
  \<^verbatim>\<open>simulationComplete\<close> is \<^verbatim>\<open>isSimulationComplete\<close>.

  The C++ \<^verbatim>\<open>int\<close> fields are modelled by \<open>int\<close>. The last section shows that
  no arithmetic of \<^verbatim>\<open>act\<close> leaves the 32-bit range for any 32-bit energy, and none of
  \<^verbatim>\<open>consumeFood\<close> for a consumption that is not negative (the constructor fixes it at
  10), so on these values the unbounded integers compute what the machine computes.
\<close>

datatype AntType = DRONE | WARRIOR | QUEEN

record Species =
  speciesName :: string
  strengthBonus :: int
  efficiencyBonus :: int
  harvestBonus :: int

record Ant =
  name :: string
  species :: Species
  type :: AntType
  energy :: int
  foodConsumption :: int

text \<open>
  Ants are held through \<^verbatim>\<open>shared_ptr\<close>: a handle is null (\<open>None\<close>) or the address of
  a live object, and two handles may designate the same ant. The store maps every
  address to the ant living there; it is total because a non-null \<^verbatim>\<open>shared_ptr\<close>
  keeps its object alive.
\<close>

type_synonym addr = nat
type_synonym ptr = "addr option"
type_synonym heap = "addr \<Rightarrow> Ant"

record AntFarm =
  name :: string
  species :: Species
  queen :: ptr
  ants :: "ptr list"
  rooms :: "ptr list"
  foodSupply :: int
  isActive :: bool

record Meadow =
  species :: "Species list"
  farms :: "AntFarm list"

text \<open>Dereferencing a null handle is undefined behaviour; the model makes it an error value.\<close>

datatype error = NullPointerDereference

text \<open>
  The calls a tick makes on the ants, in program order: \<open>CallAct p\<close> is
  \<^verbatim>\<open>ant->act()\<close> on the ant at \<open>p\<close>, \<open>CallConsumeFood p ok\<close> is
  \<^verbatim>\<open>ant->consumeFood(foodSupply)\<close> on it, returning \<open>ok\<close>.
\<close>

datatype event = CallAct addr | CallConsumeFood addr bool

section \<open>Constructors\<close>

definition Ant_ctor :: "string \<Rightarrow> Species \<Rightarrow> AntType \<Rightarrow> Ant" where
  "Ant_ctor n sp t =
     \<lparr>Ant.name = n, Ant.species = sp, type = t, energy = 100, foodConsumption = 10\<rparr>"

definition DroneAnt_ctor :: "string \<Rightarrow> Species \<Rightarrow> Ant" where
  "DroneAnt_ctor n sp = Ant_ctor n sp DRONE"

definition WarriorAnt_ctor :: "string \<Rightarrow> Species \<Rightarrow> Ant" where
  "WarriorAnt_ctor n sp = Ant_ctor n sp WARRIOR"

definition QueenAnt_ctor :: "string \<Rightarrow> Species \<Rightarrow> Ant" where
  "QueenAnt_ctor n sp = Ant_ctor n sp QUEEN"

definition AntFarm_ctor :: "string \<Rightarrow> Species \<Rightarrow> AntFarm" where
  "AntFarm_ctor n sp =
     \<lparr>AntFarm.name = n, AntFarm.species = sp, queen = None, ants = [], rooms = [],
      foodSupply = 1000, isActive = True\<rparr>"

section \<open>Ant operations\<close>

definition rest :: "Ant \<Rightarrow> Ant" where
  "rest a = a\<lparr>energy := min 100 (energy a + 20)\<rparr>"

definition work :: "Ant \<Rightarrow> Ant" where
  "work a = a\<lparr>energy := max 0 (energy a - 10)\<rparr>"

definition needsRest :: "Ant \<Rightarrow> bool" where
  "needsRest a = (energy a < 30)"

text \<open>
  \<^verbatim>\<open>bool consumeFood(int &foodSupply)\<close>: the result and the new value of the
  referenced supply. The ant itself is not modified.
\<close>

definition consumeFood :: "Ant \<Rightarrow> int \<Rightarrow> bool \<times> int" where
  "consumeFood a supply =
     (if supply \<ge> foodConsumption a then (True, supply - foodConsumption a)
      else (False, supply))"

definition DroneAnt_act :: "Ant \<Rightarrow> Ant" where
  "DroneAnt_act a = (if needsRest a then rest a else work a)"

definition WarriorAnt_act :: "Ant \<Rightarrow> Ant" where
  "WarriorAnt_act a = (if needsRest a then rest a else work a)"

definition QueenAnt_act :: "Ant \<Rightarrow> Ant" where
  "QueenAnt_act a = (if \<not> needsRest a then work a else a)"

text \<open>
  The virtual call \<^verbatim>\<open>ant->act()\<close>. Each subclass constructor fixes the \<^verbatim>\<open>type\<close>
  field and nothing changes it, so the field tells the dynamic class.
\<close>

definition act :: "Ant \<Rightarrow> Ant" where
  "act a = (case type a of
              DRONE \<Rightarrow> DroneAnt_act a
            | WARRIOR \<Rightarrow> WarriorAnt_act a
            | QUEEN \<Rightarrow> QueenAnt_act a)"

section \<open>Ant farm operations\<close>

text \<open>\<^verbatim>\<open>ant->act()\<close> through a handle to address \<open>p\<close>: the ant there is updated in place.\<close>

definition call_act :: "heap \<Rightarrow> addr \<Rightarrow> heap" where
  "call_act h p = h(p := act (h p))"

definition addRoom :: "ptr \<Rightarrow> AntFarm \<Rightarrow> AntFarm" where
  "addRoom room f = f\<lparr>rooms := rooms f @ [room]\<rparr>"

text \<open>
  \<^verbatim>\<open>setQueen\<close> takes a \<^verbatim>\<open>shared_ptr<QueenAnt>\<close>: the static type makes a non-null
  argument a queen.
\<close>

definition setQueen :: "ptr \<Rightarrow> AntFarm \<Rightarrow> AntFarm" where
  "setQueen q f = f\<lparr>queen := q, ants := ants f @ [q]\<rparr>"

definition addAnt :: "ptr \<Rightarrow> AntFarm \<Rightarrow> AntFarm" where
  "addAnt ant f = f\<lparr>ants := ants f @ [ant]\<rparr>"

text \<open>
  The range-for loop of \<^verbatim>\<open>AntFarm::tick\<close> over the remaining handles. It returns the
  store, the farm and the calls made, or the error when it reaches a null handle.
\<close>

fun tick_loop :: "ptr list \<Rightarrow> heap \<Rightarrow> AntFarm \<Rightarrow> error + (heap \<times> AntFarm \<times> event list)" where
  "tick_loop [] h f = Inr (h, f, [])"
| "tick_loop (None # ps) h f = Inl NullPointerDereference"
| "tick_loop (Some p # ps) h f =
     (let h1 = call_act h p;
          (ok, supply) = consumeFood (h1 p) (foodSupply f);
          f1 = f\<lparr>foodSupply := supply\<rparr>
      in if \<not> ok then Inr (h1, f1\<lparr>isActive := False\<rparr>, [CallAct p, CallConsumeFood p False])
         else (case tick_loop ps h1 f1 of
                 Inl e \<Rightarrow> Inl e
               | Inr (h2, f2, tr) \<Rightarrow> Inr (h2, f2, CallAct p # CallConsumeFood p True # tr)))"

definition tick :: "heap \<Rightarrow> AntFarm \<Rightarrow> error + (heap \<times> AntFarm \<times> event list)" where
  "tick h f =
     (if \<not> isActive f \<or> queen f = None then Inr (h, f, [])
      else tick_loop (ants f) h f)"

definition isActiveColony :: "AntFarm \<Rightarrow> bool" where
  "isActiveColony f = (isActive f \<and> queen f \<noteq> None)"

text \<open>\<open>ticks n\<close> is \<open>n\<close> calls of \<^verbatim>\<open>tick\<close> in a row on one farm.\<close>

fun ticks :: "nat \<Rightarrow> heap \<Rightarrow> AntFarm \<Rightarrow> error + (heap \<times> AntFarm \<times> event list)" where
  "ticks 0 h f = Inr (h, f, [])"
| "ticks (Suc n) h f =
     (case tick h f of
        Inl e \<Rightarrow> Inl e
      | Inr (h1, f1, tr1) \<Rightarrow>
          (case ticks n h1 f1 of
             Inl e \<Rightarrow> Inl e
           | Inr (h2, f2, tr2) \<Rightarrow> Inr (h2, f2, tr1 @ tr2)))"

section \<open>Meadow operations\<close>

text \<open>
  The meadow holds its farms through handles that \<^verbatim>\<open>createAntFarm\<close> makes with
  \<^verbatim>\<open>make_shared\<close>: they are never null and never shared between two entries, so the
  model keeps the farms themselves in the list. \<^verbatim>\<open>createAntFarm\<close> returns the position
  of the new farm.
\<close>

definition createAntFarm :: "string \<Rightarrow> Species \<Rightarrow> Meadow \<Rightarrow> nat \<times> Meadow" where
  "createAntFarm n sp m = (length (farms m), m\<lparr>farms := farms m @ [AntFarm_ctor n sp]\<rparr>)"

text \<open>\<^verbatim>\<open>std::count_if\<close>: one pass with a counter.\<close>

fun count_if :: "('a \<Rightarrow> bool) \<Rightarrow> 'a list \<Rightarrow> nat \<Rightarrow> nat" where
  "count_if P [] n = n"
| "count_if P (x # xs) n = count_if P xs (if P x then n + 1 else n)"

text \<open>
  The count is stored in an \<^verbatim>\<open>int\<close>: the conversion keeps the low 32 bits, read as
  two's complement.
\<close>

definition to_int :: "nat \<Rightarrow> int" where
  "to_int n = signed_take_bit 31 (int n)"

definition simulationComplete :: "Meadow \<Rightarrow> bool" where
  "simulationComplete m =
     (let activeColonies = to_int (count_if isActiveColony (farms m) 0)
      in activeColonies \<le> 1)"

text \<open>\<^verbatim>\<open>Meadow::tick\<close>: every farm ticks once, in order, on the shared store.\<close>

fun Meadow_tick_loop :: "AntFarm list \<Rightarrow> heap \<Rightarrow> error + (heap \<times> AntFarm list \<times> event list)" where
  "Meadow_tick_loop [] h = Inr (h, [], [])"
| "Meadow_tick_loop (f # fs) h =
     (case tick h f of
        Inl e \<Rightarrow> Inl e
      | Inr (h1, f1, tr1) \<Rightarrow>
          (case Meadow_tick_loop fs h1 of
             Inl e \<Rightarrow> Inl e
           | Inr (h2, fs2, tr2) \<Rightarrow> Inr (h2, f1 # fs2, tr1 @ tr2)))"

definition Meadow_tick :: "heap \<Rightarrow> Meadow \<Rightarrow> error + (heap \<times> Meadow \<times> event list)" where
  "Meadow_tick h m =
     (case Meadow_tick_loop (farms m) h of
        Inl e \<Rightarrow> Inl e
      | Inr (h1, fs, tr) \<Rightarrow> Inr (h1, m\<lparr>farms := fs\<rparr>, tr))"

section \<open>Machine range\<close>

definition INT_MIN :: int where
  "INT_MIN = - (2 ^ 31)"

definition INT_MAX :: int where
  "INT_MAX = 2 ^ 31 - 1"

definition in_int_range :: "int \<Rightarrow> bool" where
  "in_int_range x = (INT_MIN \<le> x \<and> x \<le> INT_MAX)"

section \<open>Notions used in the statements\<close>

text \<open>The sum of the consumptions of the ants at the addresses \<open>qs\<close>.\<close>

definition total_consumption :: "heap \<Rightarrow> addr list \<Rightarrow> int" where
  "total_consumption h qs = sum_list (map (\<lambda>q. foodConsumption (h q)) qs)"

text \<open>The calls of the loop iterations on \<open>qs\<close> when every withdrawal succeeds.\<close>

definition fed_calls :: "addr list \<Rightarrow> event list" where
  "fed_calls qs = concat (map (\<lambda>q. [CallAct q, CallConsumeFood q True]) qs)"

text \<open>\<^verbatim>\<open>consumeFood\<close> was called on the ant at \<open>p\<close>, with either result.\<close>

definition withdrawal_attempted :: "addr \<Rightarrow> event list \<Rightarrow> bool" where
  "withdrawal_attempted p tr =
     (CallConsumeFood p True \<in> set tr \<or> CallConsumeFood p False \<in> set tr)"

definition calls_of :: "error + (heap \<times> AntFarm \<times> event list) \<Rightarrow> event list option" where
  "calls_of r = (case r of Inl e \<Rightarrow> None | Inr (h, f, tr) \<Rightarrow> Some tr)"

definition farm_of :: "error + (heap \<times> AntFarm \<times> event list) \<Rightarrow> AntFarm option" where
  "farm_of r = (case r of Inl e \<Rightarrow> None | Inr (h, f, tr) \<Rightarrow> Some f)"

section \<open>Example objects\<close>

text \<open>
  The objects of \<^verbatim>\<open>main\<close>, put into one farm: a queen at address 0, a drone at 1 and
  warriors elsewhere. \<open>farm_low\<close> is that farm when its supply has come down to 20.
\<close>

definition Species0 :: Species where
  "Species0 =
     \<lparr>speciesName = ''Species0'', strengthBonus = 5, efficiencyBonus = 6, harvestBonus = 7\<rparr>"

definition heap0 :: heap where
  "heap0 = (\<lambda>p. if p = 0 then QueenAnt_ctor ''Queen1'' Species0
                else if p = 1 then DroneAnt_ctor ''Drone1'' Species0
                else WarriorAnt_ctor ''Warrior1'' Species0)"

definition farm0 :: AntFarm where
  "farm0 = addAnt (Some 2) (addAnt (Some 1) (setQueen (Some 0) (AntFarm_ctor ''Colony1'' Species0)))"

definition farm_low :: AntFarm where
  "farm_low = farm0\<lparr>foodSupply := 20\<rparr>"

definition meadow0 :: Meadow where
  "meadow0 = \<lparr>Meadow.species = [Species0], farms = []\<rparr>"

section \<open>Basic facts\<close>

lemmas ctor_defs =
  Ant_ctor_def DroneAnt_ctor_def WarriorAnt_ctor_def QueenAnt_ctor_def AntFarm_ctor_def

lemmas act_defs =
  act_def DroneAnt_act_def WarriorAnt_act_def QueenAnt_act_def rest_def work_def needsRest_def

lemmas farm_defs = farm0_def farm_low_def addAnt_def setQueen_def AntFarm_ctor_def

lemmas heap_defs =
  heap0_def Ant_ctor_def DroneAnt_ctor_def WarriorAnt_ctor_def QueenAnt_ctor_def

lemma act_foodConsumption: "foodConsumption (act a) = foodConsumption a"
  by (simp add: act_defs split: AntType.split)

lemma act_type: "type (act a) = type a"
  by (simp add: act_defs split: AntType.split)

lemma call_act_foodConsumption: "foodConsumption (call_act h p q) = foodConsumption (h q)"
  by (simp add: call_act_def act_foodConsumption)

lemma total_consumption_call_act: "total_consumption (call_act h p) qs = total_consumption h qs"
  by (simp add: total_consumption_def call_act_foodConsumption)

lemma total_consumption_Nil: "total_consumption h [] = 0"
  by (simp add: total_consumption_def)

lemma total_consumption_Cons:
  "total_consumption h (q # qs) = foodConsumption (h q) + total_consumption h qs"
  by (simp add: total_consumption_def)

section \<open>Energy\<close>

lemma rest_bounds:
  "0 \<le> energy a \<Longrightarrow> energy a \<le> 100 \<Longrightarrow> 0 \<le> energy (rest a) \<and> energy (rest a) \<le> 100"
  by (simp add: rest_def)

lemma work_bounds:
  "0 \<le> energy a \<Longrightarrow> energy a \<le> 100 \<Longrightarrow> 0 \<le> energy (work a) \<and> energy (work a) \<le> 100"
  by (simp add: work_def)

lemma act_bounds:
  "0 \<le> energy a \<Longrightarrow> energy a \<le> 100 \<Longrightarrow> 0 \<le> energy (act a) \<and> energy (act a) \<le> 100"
  using rest_bounds [of a] work_bounds [of a]
  by (simp add: act_def DroneAnt_act_def WarriorAnt_act_def QueenAnt_act_def split: AntType.split)

text \<open>
  C3. For every ant whose energy lies in \<open>[0, 100]\<close> and every number \<open>n\<close> of \<^verbatim>\<open>act\<close>
  calls made on it, the energy after the \<open>n\<close>-th call lies in \<open>[0, 100]\<close>.
\<close>

theorem energy_bounds:
  assumes "0 \<le> energy a" and "energy a \<le> 100"
  shows "0 \<le> energy ((act ^^ n) a) \<and> energy ((act ^^ n) a) \<le> 100"
proof (induction n)
  case 0
  from assms show ?case by simp
next
  case (Suc n)
  then show ?case using act_bounds [of "(act ^^ n) a"] by simp
qed

theorem energy_bounds_witness:
  "energy ((act ^^ 9) (DroneAnt_ctor ''Drone1'' Species0)) = 40 \<and>
   0 \<le> energy ((act ^^ 9) (DroneAnt_ctor ''Drone1'' Species0)) \<and>
   energy ((act ^^ 9) (DroneAnt_ctor ''Drone1'' Species0)) \<le> 100"
  using energy_bounds [of "DroneAnt_ctor ''Drone1'' Species0" 9]
  by (simp add: ctor_defs act_defs eval_nat_numeral)

text \<open>
  C5. One \<^verbatim>\<open>act\<close> of an ant that is not a queen sets the energy to
  \<open>min 100 (energy + 20)\<close> when the energy is below 30 and to \<open>max 0 (energy - 10)\<close>
  otherwise. One \<^verbatim>\<open>act\<close> of a queen sets the energy to \<open>max 0 (energy - 10)\<close> when the
  energy is at least 30 and leaves the ant as it is when the energy is below 30. No other
  field changes.
\<close>

theorem act_behaviour:
  "(type a \<noteq> QUEEN \<and> energy a < 30 \<longrightarrow> act a = a\<lparr>energy := min 100 (energy a + 20)\<rparr>) \<and>
   (type a \<noteq> QUEEN \<and> 30 \<le> energy a \<longrightarrow> act a = a\<lparr>energy := max 0 (energy a - 10)\<rparr>) \<and>
   (type a = QUEEN \<and> 30 \<le> energy a \<longrightarrow> act a = a\<lparr>energy := max 0 (energy a - 10)\<rparr>) \<and>
   (type a = QUEEN \<and> energy a < 30 \<longrightarrow> act a = a)"
  by (cases "type a") (simp_all add: act_defs)

theorem act_behaviour_witness:
  "energy (act ((DroneAnt_ctor ''Drone1'' Species0)\<lparr>energy := 20\<rparr>)) = 40 \<and>
   energy (act (WarriorAnt_ctor ''Warrior1'' Species0)) = 90 \<and>
   energy (act (QueenAnt_ctor ''Queen1'' Species0)) = 90 \<and>
   energy (act ((QueenAnt_ctor ''Queen1'' Species0)\<lparr>energy := 20\<rparr>)) = 20"
  using act_behaviour [of "(DroneAnt_ctor ''Drone1'' Species0)\<lparr>energy := 20\<rparr>"]
        act_behaviour [of "WarriorAnt_ctor ''Warrior1'' Species0"]
        act_behaviour [of "QueenAnt_ctor ''Queen1'' Species0"]
        act_behaviour [of "(QueenAnt_ctor ''Queen1'' Species0)\<lparr>energy := 20\<rparr>"]
  by (simp add: ctor_defs)

section \<open>Withdrawal\<close>

text \<open>
  C6. For every ant and every supply, \<^verbatim>\<open>consumeFood\<close> returns true and the supply less
  the ant's consumption when the supply is at least the consumption, and returns false
  and the supply unchanged when the supply is smaller.
\<close>

theorem consumeFood_result:
  "(foodConsumption a \<le> pool \<longrightarrow> consumeFood a pool = (True, pool - foodConsumption a)) \<and>
   (pool < foodConsumption a \<longrightarrow> consumeFood a pool = (False, pool))"
  by (simp add: consumeFood_def)

theorem consumeFood_result_witness:
  "consumeFood (DroneAnt_ctor ''Drone1'' Species0) 25 = (True, 15) \<and>
   consumeFood (DroneAnt_ctor ''Drone1'' Species0) 7 = (False, 7)"
  using consumeFood_result [of "DroneAnt_ctor ''Drone1'' Species0" 25]
        consumeFood_result [of "DroneAnt_ctor ''Drone1'' Species0" 7]
  by (simp add: ctor_defs)

section \<open>Construction\<close>

text \<open>
  C10. Every ant constructor, for every name, species and type, gives energy 100 and
  consumption 10; the farm constructor, for every name and species, gives supply 1000 and
  an active farm, and so does the farm that \<^verbatim>\<open>createAntFarm\<close> adds to a meadow.
\<close>

theorem constructors_initial_values:
  "energy (Ant_ctor n sp t) = 100 \<and> foodConsumption (Ant_ctor n sp t) = 10 \<and>
   energy (DroneAnt_ctor n sp) = 100 \<and> foodConsumption (DroneAnt_ctor n sp) = 10 \<and>
   energy (WarriorAnt_ctor n sp) = 100 \<and> foodConsumption (WarriorAnt_ctor n sp) = 10 \<and>
   energy (QueenAnt_ctor n sp) = 100 \<and> foodConsumption (QueenAnt_ctor n sp) = 10 \<and>
   foodSupply (AntFarm_ctor n sp) = 1000 \<and> isActive (AntFarm_ctor n sp) \<and>
   foodSupply (last (farms (snd (createAntFarm n sp m)))) = 1000 \<and>
   isActive (last (farms (snd (createAntFarm n sp m))))"
  by (simp add: ctor_defs createAntFarm_def)

section \<open>Setting the queen\<close>

text \<open>
  C1, as the code has it. \<^verbatim>\<open>setQueen\<close> always appends its argument to the members,
  whether or not it is already among them, and stores it as the queen. A second call
  replaces the stored queen, and the argument of the first call stays among the members.
  Supply and active flag are not touched.
\<close>

theorem setQueen_appends:
  "ants (setQueen q f) = ants f @ [q] \<and> queen (setQueen q f) = q \<and>
   queen (setQueen q2 (setQueen q1 f)) = q2 \<and>
   ants (setQueen q2 (setQueen q1 f)) = ants f @ [q1, q2] \<and>
   foodSupply (setQueen q f) = foodSupply f \<and> isActive (setQueen q f) = isActive f"
  by (simp add: setQueen_def)

text \<open>
  C1 as stated fails: the queen at address 0 is a member after the first call, and the
  second call with the same queen adds her once more.
\<close>

theorem setQueen_present_counterexample:
  "Some 0 \<in> set (ants (setQueen (Some 0) (AntFarm_ctor ''Colony1'' Species0))) \<and>
   ants (setQueen (Some 0) (setQueen (Some 0) (AntFarm_ctor ''Colony1'' Species0))) =
     [Some 0, Some 0]"
  by (simp add: setQueen_def ctor_defs)

section \<open>The loop of a tick\<close>

lemma tick_loop_fail:
  "foodSupply f < foodConsumption (h p) \<Longrightarrow>
   tick_loop (Some p # ps) h f =
     Inr (call_act h p, f\<lparr>isActive := False\<rparr>, [CallAct p, CallConsumeFood p False])"
  by (simp add: consumeFood_def call_act_foodConsumption)

lemma tick_loop_feed:
  "foodConsumption (h p) \<le> foodSupply f \<Longrightarrow>
   tick_loop (Some p # ps) h f =
     (case tick_loop ps (call_act h p) (f\<lparr>foodSupply := foodSupply f - foodConsumption (h p)\<rparr>) of
        Inl e \<Rightarrow> Inl e
      | Inr (h2, f2, tr) \<Rightarrow> Inr (h2, f2, CallAct p # CallConsumeFood p True # tr))"
  by (simp add: consumeFood_def call_act_foodConsumption)

lemma tick_loop_fed_prefix:
  "\<forall>k<length pre. foodConsumption (h (pre ! k)) \<le> foodSupply f - total_consumption h (take k pre) \<Longrightarrow>
   tick_loop (map Some pre @ ps) h f =
     (case tick_loop ps (foldl call_act h pre) (f\<lparr>foodSupply := foodSupply f - total_consumption h pre\<rparr>) of
        Inl e \<Rightarrow> Inl e
      | Inr (h2, f2, tr) \<Rightarrow> Inr (h2, f2, fed_calls pre @ tr))"
proof (induction pre arbitrary: h f)
  case Nil
  show ?case by (simp add: total_consumption_Nil fed_calls_def split: sum.split)
next
  case (Cons p pre)
  let ?h1 = "call_act h p"
  let ?f1 = "f\<lparr>foodSupply := foodSupply f - foodConsumption (h p)\<rparr>"
  from Cons.prems have first: "foodConsumption (h p) \<le> foodSupply f"
    by (auto simp: total_consumption_Nil)
  have later: "\<forall>k<length pre. foodConsumption (?h1 (pre ! k)) \<le> foodSupply ?f1 - total_consumption ?h1 (take k pre)"
  proof (intro allI impI)
    fix k assume "k < length pre"
    then have "Suc k < length (p # pre)" by simp
    with Cons.prems have "foodConsumption (h ((p # pre) ! Suc k)) \<le> foodSupply f - total_consumption h (take (Suc k) (p # pre))"
      by blast
    then show "foodConsumption (?h1 (pre ! k)) \<le> foodSupply ?f1 - total_consumption ?h1 (take k pre)"
      by (simp add: call_act_foodConsumption total_consumption_call_act total_consumption_Cons)
  qed
  have upd: "?f1\<lparr>foodSupply := foodSupply ?f1 - total_consumption ?h1 pre\<rparr>
      = f\<lparr>foodSupply := foodSupply f - total_consumption h (p # pre)\<rparr>"
    by (simp add: total_consumption_call_act total_consumption_Cons algebra_simps)
  have "tick_loop (map Some (p # pre) @ ps) h f =
      (case tick_loop (map Some pre @ ps) ?h1 ?f1 of
        Inl e \<Rightarrow> Inl e
      | Inr (h2, f2, tr) \<Rightarrow> Inr (h2, f2, CallAct p # CallConsumeFood p True # tr))"
    using first tick_loop_feed [of h p f "map Some pre @ ps"] by simp
  also have "tick_loop (map Some pre @ ps) ?h1 ?f1 =
     (case tick_loop ps (foldl call_act ?h1 pre) (f\<lparr>foodSupply := foodSupply f - total_consumption h (p # pre)\<rparr>) of
        Inl e \<Rightarrow> Inl e
      | Inr (h2, f2, tr) \<Rightarrow> Inr (h2, f2, fed_calls pre @ tr))"
    using Cons.IH [OF later] upd by simp
  finally show ?case
    by (simp add: fed_calls_def split: sum.split)
qed

lemma foldl_call_act_other: "q \<notin> set ps \<Longrightarrow> foldl call_act h ps q = h q"
  by (induction ps arbitrary: h) (auto simp: call_act_def)

lemma foldl_call_act_distinct:
  "distinct ps \<Longrightarrow> q \<in> set ps \<Longrightarrow> foldl call_act h ps q = act (h q)"
  by (induction ps arbitrary: h) (auto simp: call_act_def foldl_call_act_other)

text \<open>
  C9. In an active farm with a queen, let the member at position \<open>i\<close> (the handle
  \<open>Some p\<close> after the handles \<open>pre\<close>) be the first whose withdrawal fails: every
  earlier member finds its consumption in what the earlier ones left, and \<open>p\<close> does not.
  Then the tick returns; \<^verbatim>\<open>act\<close> has been called once for each position up to and
  including \<open>i\<close> (on the failing member too, whose energy change stays), nothing was
  called for the positions after \<open>i\<close>, an ant that is at none of the positions up to
  \<open>i\<close> is unchanged, and the supply has lost the consumptions of the positions before
  \<open>i\<close>.
\<close>

theorem tick_first_failure:
  assumes "isActive f" and "queen f \<noteq> None"
    and "ants f = map Some pre @ Some p # post"
    and "\<forall>k<length pre. foodConsumption (h (pre ! k)) \<le> foodSupply f - total_consumption h (take k pre)"
    and "foodSupply f - total_consumption h pre < foodConsumption (h p)"
  shows "\<exists>h'. tick h f = Inr (h', f\<lparr>foodSupply := foodSupply f - total_consumption h pre, isActive := False\<rparr>,
                             fed_calls pre @ [CallAct p, CallConsumeFood p False]) \<and>
              h' = foldl call_act h (pre @ [p]) \<and>
              (\<forall>q. q \<notin> set (pre @ [p]) \<longrightarrow> h' q = h q) \<and>
              (distinct (pre @ [p]) \<longrightarrow> (\<forall>q\<in>set (pre @ [p]). h' q = act (h q)))"
proof -
  let ?h1 = "foldl call_act h pre"
  let ?f1 = "f\<lparr>foodSupply := foodSupply f - total_consumption h pre\<rparr>"
  have rate: "foodConsumption (?h1 p) = foodConsumption (h p)"
    by (induction pre arbitrary: h) (simp_all add: call_act_foodConsumption)
  with assms(5) have "foodSupply ?f1 < foodConsumption (?h1 p)" by simp
  then have "tick_loop (Some p # post) ?h1 ?f1 =
      Inr (call_act ?h1 p, ?f1\<lparr>isActive := False\<rparr>, [CallAct p, CallConsumeFood p False])"
    by (rule tick_loop_fail)
  with tick_loop_fed_prefix [OF assms(4), of "Some p # post"] assms(1-3)
  have "tick h f = Inr (foldl call_act h (pre @ [p]),
      f\<lparr>foodSupply := foodSupply f - total_consumption h pre, isActive := False\<rparr>,
      fed_calls pre @ [CallAct p, CallConsumeFood p False])"
    by (simp add: tick_def)
  moreover have "\<forall>q. q \<notin> set (pre @ [p]) \<longrightarrow> foldl call_act h (pre @ [p]) q = h q"
    using foldl_call_act_other by blast
  moreover have "distinct (pre @ [p]) \<longrightarrow> (\<forall>q\<in>set (pre @ [p]). foldl call_act h (pre @ [p]) q = act (h q))"
    using foldl_call_act_distinct by blast
  ultimately show ?thesis by blast
qed

theorem tick_first_failure_witness:
  "tick heap0 (addAnt (Some 3) farm_low) =
     Inr (foldl call_act heap0 [0, 1, 2],
          (addAnt (Some 3) farm_low)\<lparr>foodSupply := 0, isActive := False\<rparr>,
          [CallAct 0, CallConsumeFood 0 True, CallAct 1, CallConsumeFood 1 True,
           CallAct 2, CallConsumeFood 2 False]) \<and>
   energy (heap0 2) = 100 \<and> energy (foldl call_act heap0 [0, 1, 2] 2) = 90 \<and>
   foldl call_act heap0 [0, 1, 2] 3 = heap0 3"
  using tick_first_failure [of "addAnt (Some 3) farm_low" "[0, 1]" 2 "[Some 3]" heap0]
  by (simp add: farm_defs heap_defs total_consumption_def fed_calls_def less_Suc_eq
      eval_nat_numeral act_defs call_act_def)

section \<open>Short-circuit withdrawal\<close>

text \<open>
  C2, as the code has it. In an active farm with a queen and the members \<open>[A, B, C]\<close>,
  when the supply covers the consumptions of \<open>A\<close> and \<open>B\<close> but not of all three (and
  \<open>B\<close>'s consumption is not negative), a tick deducts exactly \<open>A\<close>'s and \<open>B\<close>'s
  consumption, calls \<^verbatim>\<open>act\<close> on all three, attempts \<open>C\<close>'s withdrawal, which fails
  and leaves the supply as it is, and clears the active flag.
\<close>

theorem short_circuit_withdrawal:
  assumes "isActive f" and "queen f \<noteq> None"
    and "ants f = [Some a, Some b, Some c]"
    and "0 \<le> foodConsumption (h b)"
    and "foodConsumption (h a) + foodConsumption (h b) \<le> foodSupply f"
    and "foodSupply f < foodConsumption (h a) + foodConsumption (h b) + foodConsumption (h c)"
  shows "tick h f =
     Inr (call_act (call_act (call_act h a) b) c,
          f\<lparr>foodSupply := foodSupply f - foodConsumption (h a) - foodConsumption (h b),
            isActive := False\<rparr>,
          [CallAct a, CallConsumeFood a True, CallAct b, CallConsumeFood b True,
           CallAct c, CallConsumeFood c False])"
  using assms
  by (simp add: tick_def consumeFood_def call_act_foodConsumption)

theorem short_circuit_withdrawal_witness:
  "tick heap0 farm_low =
     Inr (call_act (call_act (call_act heap0 0) 1) 2,
          farm_low\<lparr>foodSupply := 0, isActive := False\<rparr>,
          [CallAct 0, CallConsumeFood 0 True, CallAct 1, CallConsumeFood 1 True,
           CallAct 2, CallConsumeFood 2 False])"
  using short_circuit_withdrawal [of farm_low 0 1 2 heap0]
  by (simp add: farm_defs heap_defs)

text \<open>
  C2 as stated fails: with supply 20 and three ants that consume 10 each, the tick does
  call \<^verbatim>\<open>consumeFood\<close> on the third ant; that call returning false is what ends the
  tick.
\<close>

theorem short_circuit_withdrawal_counterexample:
  "isActive farm_low \<and> queen farm_low = Some 0 \<and> ants farm_low = [Some 0, Some 1, Some 2] \<and>
   foodSupply farm_low = 20 \<and>
   foodConsumption (heap0 0) = 10 \<and> foodConsumption (heap0 1) = 10 \<and> foodConsumption (heap0 2) = 10 \<and>
   farm_of (tick heap0 farm_low) = Some (farm_low\<lparr>foodSupply := 0, isActive := False\<rparr>) \<and>
   calls_of (tick heap0 farm_low) =
     Some [CallAct 0, CallConsumeFood 0 True, CallAct 1, CallConsumeFood 1 True,
           CallAct 2, CallConsumeFood 2 False] \<and>
   withdrawal_attempted 2 (the (calls_of (tick heap0 farm_low)))"
  by (simp add: farm_defs heap_defs tick_def consumeFood_def call_act_def act_foodConsumption
      calls_of_def farm_of_def withdrawal_attempted_def)

section \<open>What a tick keeps\<close>

lemma tick_loop_feed_Inr:
  "foodConsumption (h p) \<le> foodSupply f \<Longrightarrow> tick_loop (Some p # ps) h f = Inr (h', f', tr) \<Longrightarrow>
   \<exists>tr'. tick_loop ps (call_act h p) (f\<lparr>foodSupply := foodSupply f - foodConsumption (h p)\<rparr>) =
           Inr (h', f', tr') \<and>
         tr = CallAct p # CallConsumeFood p True # tr'"
  by (auto simp: consumeFood_def call_act_foodConsumption split: sum.splits)

lemma tick_loop_frame:
  "tick_loop ps h f = Inr (h', f', tr) \<Longrightarrow>
   f' = f\<lparr>foodSupply := foodSupply f', isActive := isActive f'\<rparr> \<and>
   (\<forall>q. foodConsumption (h' q) = foodConsumption (h q))"
proof (induction ps arbitrary: h f h' f' tr)
  case Nil
  then show ?case by simp
next
  case (Cons x ps)
  show ?case
  proof (cases x)
    case None
    with Cons.prems show ?thesis by simp
  next
    case (Some p)
    show ?thesis
    proof (cases "foodConsumption (h p) \<le> foodSupply f")
      case False
      with Cons.prems Some show ?thesis
        by (auto simp: consumeFood_def call_act_foodConsumption)
    next
      case True
      let ?h1 = "call_act h p"
      let ?f1 = "f\<lparr>foodSupply := foodSupply f - foodConsumption (h p)\<rparr>"
      from tick_loop_feed_Inr [of h p f ps h' f' tr] True Cons.prems Some
      obtain tr' where run: "tick_loop ps ?h1 ?f1 = Inr (h', f', tr')"
        by blast
      from Cons.IH [OF run]
      have "f' = ?f1\<lparr>foodSupply := foodSupply f', isActive := isActive f'\<rparr> \<and>
            (\<forall>q. foodConsumption (h' q) = foodConsumption (?h1 q))" .
      then show ?thesis by (simp add: call_act_foodConsumption)
    qed
  qed
qed

lemma tick_loop_foodSupply:
  "tick_loop ps h f = Inr (h', f', tr) \<Longrightarrow>
   (\<forall>p. Some p \<in> set ps \<longrightarrow> 0 \<le> foodConsumption (h p)) \<Longrightarrow>
   foodSupply f' \<le> foodSupply f \<and> (0 \<le> foodSupply f \<longrightarrow> 0 \<le> foodSupply f')"
proof (induction ps arbitrary: h f h' f' tr)
  case Nil
  then show ?case by simp
next
  case (Cons x ps)
  show ?case
  proof (cases x)
    case None
    with Cons.prems show ?thesis by simp
  next
    case (Some p)
    show ?thesis
    proof (cases "foodConsumption (h p) \<le> foodSupply f")
      case False
      with Cons.prems Some show ?thesis
        by (auto simp: consumeFood_def call_act_foodConsumption)
    next
      case True
      let ?h1 = "call_act h p"
      let ?f1 = "f\<lparr>foodSupply := foodSupply f - foodConsumption (h p)\<rparr>"
      from tick_loop_feed_Inr [of h p f ps h' f' tr] True Cons.prems Some
      obtain tr' where run: "tick_loop ps ?h1 ?f1 = Inr (h', f', tr')"
        by blast
      from Cons.prems(2) have "\<forall>q. Some q \<in> set ps \<longrightarrow> 0 \<le> foodConsumption (?h1 q)"
        by (simp add: call_act_foodConsumption)
      from Cons.IH [OF run this]
      have "foodSupply f' \<le> foodSupply ?f1 \<and> (0 \<le> foodSupply ?f1 \<longrightarrow> 0 \<le> foodSupply f')" .
      moreover from Cons.prems(2) Some have "0 \<le> foodConsumption (h p)" by simp
      ultimately show ?thesis using True by auto
    qed
  qed
qed

lemma tick_loop_returns:
  "None \<notin> set ps \<Longrightarrow> \<exists>r. tick_loop ps h f = Inr r"
proof (induction ps arbitrary: h f)
  case Nil
  show ?case by simp
next
  case (Cons x ps)
  then obtain p where x: "x = Some p" by (cases x) auto
  from Cons.prems have "None \<notin> set ps" by simp
  from Cons.IH [OF this] obtain r where
    "tick_loop ps (call_act h p) (f\<lparr>foodSupply := snd (consumeFood (call_act h p p) (foodSupply f))\<rparr>) = Inr r"
    by blast
  then show ?case using x
    by (cases r) (auto simp: Let_def split: prod.splits)
qed

lemma tick_frame:
  "tick h f = Inr (h', f', tr) \<Longrightarrow>
   f' = f\<lparr>foodSupply := foodSupply f', isActive := isActive f'\<rparr> \<and>
   (\<forall>q. foodConsumption (h' q) = foodConsumption (h q))"
  using tick_loop_frame [of "ants f" h f h' f' tr]
  by (auto simp: tick_def split: if_splits)

lemma tick_foodSupply:
  "tick h f = Inr (h', f', tr) \<Longrightarrow>
   (\<forall>p. Some p \<in> set (ants f) \<longrightarrow> 0 \<le> foodConsumption (h p)) \<Longrightarrow>
   foodSupply f' \<le> foodSupply f \<and> (0 \<le> foodSupply f \<longrightarrow> 0 \<le> foodSupply f')"
  using tick_loop_foodSupply [of "ants f" h f h' f' tr]
  by (auto simp: tick_def split: if_splits)

lemma tick_returns: "None \<notin> set (ants f) \<Longrightarrow> \<exists>r. tick h f = Inr r"
  using tick_loop_returns [of "ants f" h f] by (simp add: tick_def)

lemma tick_ants: "tick h f = Inr (h', f', tr) \<Longrightarrow> ants f' = ants f"
proof -
  assume "tick h f = Inr (h', f', tr)"
  from tick_frame [OF this] have "f' = f\<lparr>foodSupply := foodSupply f', isActive := isActive f'\<rparr>" ..
  then have "ants f' = ants (f\<lparr>foodSupply := foodSupply f', isActive := isActive f'\<rparr>)" by simp
  then show ?thesis by simp
qed

lemma ticks_foodSupply:
  "ticks n h f = Inr (h', f', tr) \<Longrightarrow>
   (\<forall>p. Some p \<in> set (ants f) \<longrightarrow> 0 \<le> foodConsumption (h p)) \<Longrightarrow>
   foodSupply f' \<le> foodSupply f \<and> (0 \<le> foodSupply f \<longrightarrow> 0 \<le> foodSupply f')"
proof (induction n arbitrary: h f h' f' tr)
  case 0
  then show ?case by simp
next
  case (Suc n)
  from Suc.prems(1) obtain h1 f1 tr1 tr2 where
    one: "tick h f = Inr (h1, f1, tr1)" and more: "ticks n h1 f1 = Inr (h', f', tr2)"
    by (auto split: sum.splits)
  from tick_foodSupply [OF one Suc.prems(2)]
  have a: "foodSupply f1 \<le> foodSupply f \<and> (0 \<le> foodSupply f \<longrightarrow> 0 \<le> foodSupply f1)" .
  from tick_frame [OF one] tick_ants [OF one] Suc.prems(2)
  have "\<forall>p. Some p \<in> set (ants f1) \<longrightarrow> 0 \<le> foodConsumption (h1 p)" by simp
  from Suc.IH [OF more this] a show ?case by auto
qed

lemma ticks_returns: "None \<notin> set (ants f) \<Longrightarrow> \<exists>r. ticks n h f = Inr r"
proof (induction n arbitrary: h f)
  case 0
  show ?case by simp
next
  case (Suc n)
  from tick_returns [OF Suc.prems] obtain h1 f1 tr1 where one: "tick h f = Inr (h1, f1, tr1)"
    by (metis prod_cases3)
  with Suc.prems have "None \<notin> set (ants f1)" by (simp add: tick_ants)
  from Suc.IH [OF this] obtain h2 f2 tr2 where "ticks n h1 f1 = Inr (h2, f2, tr2)"
    by (metis prod_cases3)
  with one show ?case by simp
qed

lemma tick_loop_energy_bounds:
  "tick_loop ps h f = Inr (h', f', tr) \<Longrightarrow>
   (\<forall>q. 0 \<le> energy (h q) \<and> energy (h q) \<le> 100) \<Longrightarrow>
   (\<forall>q. 0 \<le> energy (h' q) \<and> energy (h' q) \<le> 100)"
proof (induction ps arbitrary: h f h' f' tr)
  case Nil
  then show ?case by simp
next
  case (Cons x ps)
  show ?case
  proof (cases x)
    case None
    with Cons.prems show ?thesis by simp
  next
    case (Some p)
    from Cons.prems(2) have kept: "\<forall>q. 0 \<le> energy (call_act h p q) \<and> energy (call_act h p q) \<le> 100"
      using act_bounds [of "h p"] by (simp add: call_act_def)
    show ?thesis
    proof (cases "foodConsumption (h p) \<le> foodSupply f")
      case False
      with Cons.prems(1) Some have "h' = call_act h p"
        by (auto simp: consumeFood_def call_act_foodConsumption)
      with kept show ?thesis by simp
    next
      case True
      from tick_loop_feed_Inr [of h p f ps h' f' tr] True Cons.prems(1) Some
      obtain tr' where "tick_loop ps (call_act h p)
          (f\<lparr>foodSupply := foodSupply f - foodConsumption (h p)\<rparr>) = Inr (h', f', tr')"
        by blast
      from Cons.IH [OF this kept] show ?thesis .
    qed
  qed
qed

lemma tick_energy_bounds:
  "tick h f = Inr (h', f', tr) \<Longrightarrow>
   (\<forall>q. 0 \<le> energy (h q) \<and> energy (h q) \<le> 100) \<Longrightarrow>
   (\<forall>q. 0 \<le> energy (h' q) \<and> energy (h' q) \<le> 100)"
  using tick_loop_energy_bounds [of "ants f" h f h' f' tr]
  by (auto simp: tick_def split: if_splits)

section \<open>The food supply\<close>

text \<open>
  C4. Take a farm whose supply is not negative and whose members' consumptions are not
  negative (the constructor sets every consumption to 10 and nothing changes it). Then
  after a tick, and after any number of ticks, the supply is at most what it was and is
  not negative; a tick returns whenever no member handle is null; and \<^verbatim>\<open>setQueen\<close>,
  \<^verbatim>\<open>addAnt\<close> and \<^verbatim>\<open>addRoom\<close> leave the supply as it is, so nothing replenishes it.
\<close>

theorem foodSupply_monotone:
  assumes "\<forall>p. Some p \<in> set (ants f) \<longrightarrow> 0 \<le> foodConsumption (h p)"
    and "0 \<le> foodSupply f"
  shows "(\<forall>h' f' tr. tick h f = Inr (h', f', tr) \<longrightarrow>
            foodSupply f' \<le> foodSupply f \<and> 0 \<le> foodSupply f') \<and>
         (\<forall>h' f' tr. ticks n h f = Inr (h', f', tr) \<longrightarrow>
            foodSupply f' \<le> foodSupply f \<and> 0 \<le> foodSupply f') \<and>
         (None \<notin> set (ants f) \<longrightarrow> (\<exists>r. tick h f = Inr r) \<and> (\<exists>r. ticks n h f = Inr r)) \<and>
         foodSupply (setQueen q f) = foodSupply f \<and>
         foodSupply (addAnt q f) = foodSupply f \<and>
         foodSupply (addRoom q f) = foodSupply f"
proof -
  have "\<forall>h' f' tr. tick h f = Inr (h', f', tr) \<longrightarrow>
            foodSupply f' \<le> foodSupply f \<and> 0 \<le> foodSupply f'"
    using tick_foodSupply [of h f] assms by blast
  moreover have "\<forall>h' f' tr. ticks n h f = Inr (h', f', tr) \<longrightarrow>
            foodSupply f' \<le> foodSupply f \<and> 0 \<le> foodSupply f'"
    using ticks_foodSupply [of n h f] assms by blast
  moreover have "None \<notin> set (ants f) \<longrightarrow> (\<exists>r. tick h f = Inr r) \<and> (\<exists>r. ticks n h f = Inr r)"
    using tick_returns [of f h] ticks_returns [of f n h] by blast
  ultimately show ?thesis
    by (simp add: setQueen_def addAnt_def addRoom_def)
qed

theorem foodSupply_monotone_witness:
  "farm_of (tick heap0 (farm0\<lparr>foodSupply := 45\<rparr>)) = Some (farm0\<lparr>foodSupply := 15\<rparr>) \<and>
   farm_of (ticks 2 heap0 (farm0\<lparr>foodSupply := 45\<rparr>)) =
     Some (farm0\<lparr>foodSupply := 5, isActive := False\<rparr>) \<and>
   foodSupply (the (farm_of (ticks 2 heap0 (farm0\<lparr>foodSupply := 45\<rparr>))))
     \<le> foodSupply (farm0\<lparr>foodSupply := 45\<rparr>) \<and>
   0 \<le> foodSupply (the (farm_of (ticks 2 heap0 (farm0\<lparr>foodSupply := 45\<rparr>))))"
  using foodSupply_monotone [of "farm0\<lparr>foodSupply := 45\<rparr>" heap0 2 None]
  by (simp add: farm_defs heap_defs tick_def consumeFood_def call_act_def act_foodConsumption
      farm_of_def eval_nat_numeral)

text \<open>The same for one tick of the whole meadow, farm by farm.\<close>

lemma Meadow_tick_loop_foodSupply:
  "Meadow_tick_loop fs h = Inr (h', fs', tr) \<Longrightarrow>
   (\<forall>f\<in>set fs. \<forall>p. Some p \<in> set (ants f) \<longrightarrow> 0 \<le> foodConsumption (h p)) \<Longrightarrow>
   list_all2 (\<lambda>f f'. foodSupply f' \<le> foodSupply f \<and> (0 \<le> foodSupply f \<longrightarrow> 0 \<le> foodSupply f')) fs fs'"
proof (induction fs arbitrary: h h' fs' tr)
  case Nil
  then show ?case by simp
next
  case (Cons f fs)
  from Cons.prems(1) obtain h1 f1 tr1 fs2 tr2 where
    one: "tick h f = Inr (h1, f1, tr1)" and
    more: "Meadow_tick_loop fs h1 = Inr (h', fs2, tr2)" and
    res: "fs' = f1 # fs2"
    by (auto split: sum.splits)
  from Cons.prems(2) have "\<forall>p. Some p \<in> set (ants f) \<longrightarrow> 0 \<le> foodConsumption (h p)"
    by simp
  from tick_foodSupply [OF one this]
  have hd: "foodSupply f1 \<le> foodSupply f \<and> (0 \<le> foodSupply f \<longrightarrow> 0 \<le> foodSupply f1)" .
  from tick_frame [OF one] Cons.prems(2)
  have "\<forall>g\<in>set fs. \<forall>p. Some p \<in> set (ants g) \<longrightarrow> 0 \<le> foodConsumption (h1 p)"
    by simp
  from Cons.IH [OF more this] hd res show ?case by simp
qed

lemma Meadow_tick_foodSupply:
  "Meadow_tick h m = Inr (h', m', tr) \<Longrightarrow>
   (\<forall>f\<in>set (farms m). \<forall>p. Some p \<in> set (ants f) \<longrightarrow> 0 \<le> foodConsumption (h p)) \<Longrightarrow>
   list_all2 (\<lambda>f f'. foodSupply f' \<le> foodSupply f \<and> (0 \<le> foodSupply f \<longrightarrow> 0 \<le> foodSupply f'))
     (farms m) (farms m')"
  using Meadow_tick_loop_foodSupply [of "farms m" h h' "farms m'"]
  by (auto simp: Meadow_tick_def split: sum.splits)

section \<open>Farms that do not tick\<close>

lemma tick_inactive: "\<not> isActive f \<or> queen f = None \<Longrightarrow> tick h f = Inr (h, f, [])"
  by (simp add: tick_def)

text \<open>
  C7. For a farm whose active flag is false or whose queen is unset, a tick, and any
  number of ticks, return the store and the farm exactly as they were and call nothing:
  the supply, the active flag and every ant's energy are unchanged, and the farm is still
  not an active colony.
\<close>

theorem inactive_colony_tick_noop:
  assumes "\<not> isActive f \<or> queen f = None"
  shows "tick h f = Inr (h, f, []) \<and> ticks n h f = Inr (h, f, []) \<and> \<not> isActiveColony f"
proof -
  have one: "tick h f = Inr (h, f, [])"
    using assms by (rule tick_inactive)
  have "ticks n h f = Inr (h, f, [])"
    by (induction n) (simp_all add: one)
  with one assms show ?thesis
    by (auto simp: isActiveColony_def)
qed

theorem inactive_colony_tick_noop_witness:
  "ticks 3 heap0 (addAnt (Some 1) (AntFarm_ctor ''Colony1'' Species0)) =
     Inr (heap0, addAnt (Some 1) (AntFarm_ctor ''Colony1'' Species0), []) \<and>
   ticks 3 heap0 (farm0\<lparr>isActive := False\<rparr>) = Inr (heap0, farm0\<lparr>isActive := False\<rparr>, []) \<and>
   \<not> isActiveColony (farm0\<lparr>isActive := False\<rparr>)"
  using inactive_colony_tick_noop [of "addAnt (Some 1) (AntFarm_ctor ''Colony1'' Species0)" heap0 3]
        inactive_colony_tick_noop [of "farm0\<lparr>isActive := False\<rparr>" heap0 3]
  by (simp add: farm_defs)

section \<open>Completion of the simulation\<close>

lemma count_if_filter: "count_if P xs n = n + length (filter P xs)"
  by (induction xs arbitrary: n) simp_all

lemma to_int_small: "n < 2 ^ 31 \<Longrightarrow> to_int n = int n"
proof -
  assume "n < 2 ^ 31"
  then have "int n < 2 ^ 31" by (metis of_nat_less_iff of_nat_numeral of_nat_power)
  then show ?thesis
    by (simp add: to_int_def signed_take_bit_int_eq_self)
qed

lemma simulationComplete_count:
  "length (farms m) < 2 ^ 31 \<Longrightarrow>
   simulationComplete m = (length (filter isActiveColony (farms m)) \<le> 1)"
proof -
  assume len: "length (farms m) < 2 ^ 31"
  have "length (filter isActiveColony (farms m)) \<le> length (farms m)" by simp
  with len have "length (filter isActiveColony (farms m)) < 2 ^ 31" by linarith
  then show ?thesis
    by (simp add: simulationComplete_def count_if_filter to_int_small)
qed

text \<open>
  C8. A meadow with exactly one farm, whatever the farm's state, reports the simulation
  complete; so does the meadow right after its first \<^verbatim>\<open>createAntFarm\<close>. In general
  (below \<open>2 ^ 31\<close> farms, where the count fits the \<^verbatim>\<open>int\<close> it is stored in) the
  simulation is complete exactly when at most one farm is an active colony.
\<close>

theorem single_colony_simulationComplete:
  "(length (farms m) = 1 \<longrightarrow> simulationComplete m) \<and>
   (farms m = [] \<longrightarrow> simulationComplete (snd (createAntFarm n sp m))) \<and>
   (length (farms m) < 2 ^ 31 \<longrightarrow>
      simulationComplete m = (length (filter isActiveColony (farms m)) \<le> 1))"
proof (intro conjI impI)
  assume one: "length (farms m) = 1"
  have "length (filter isActiveColony (farms m)) \<le> length (farms m)" by simp
  with one show "simulationComplete m"
    by (simp add: simulationComplete_count)
next
  assume "farms m = []"
  then have "length (farms (snd (createAntFarm n sp m))) = 1"
    by (simp add: createAntFarm_def)
  moreover have "length (filter isActiveColony (farms (snd (createAntFarm n sp m))))
      \<le> length (farms (snd (createAntFarm n sp m)))" by simp
  ultimately show "simulationComplete (snd (createAntFarm n sp m))"
    by (simp add: simulationComplete_count)
next
  assume "length (farms m) < 2 ^ 31"
  then show "simulationComplete m = (length (filter isActiveColony (farms m)) \<le> 1)"
    by (rule simulationComplete_count)
qed

theorem single_colony_simulationComplete_witness:
  "simulationComplete \<lparr>Meadow.species = [Species0], farms = [farm0]\<rparr> \<and>
   simulationComplete \<lparr>Meadow.species = [Species0], farms = [farm0\<lparr>isActive := False\<rparr>]\<rparr> \<and>
   simulationComplete (snd (createAntFarm ''Colony1'' Species0 meadow0)) \<and>
   simulationComplete \<lparr>Meadow.species = [Species0], farms = [farm0, farm_low]\<rparr> = False"
  using single_colony_simulationComplete [of "\<lparr>Meadow.species = [Species0], farms = [farm0]\<rparr>"]
        single_colony_simulationComplete
          [of "\<lparr>Meadow.species = [Species0], farms = [farm0\<lparr>isActive := False\<rparr>]\<rparr>"]
        single_colony_simulationComplete [of meadow0 "''Colony1''" Species0]
        single_colony_simulationComplete
          [of "\<lparr>Meadow.species = [Species0], farms = [farm0, farm_low]\<rparr>"]
  by (simp add: meadow0_def farm_defs isActiveColony_def)

section \<open>The arithmetic stays in the machine range\<close>

text \<open>
  For a 32-bit energy, the sum and the difference that \<^verbatim>\<open>act\<close> computes are 32-bit
  values; for a 32-bit supply and a consumption that is not negative, so is the
  difference that \<^verbatim>\<open>consumeFood\<close> computes.
\<close>

lemma act_in_int_range:
  assumes "in_int_range (energy a)"
  shows "(energy a < 30 \<longrightarrow> in_int_range (energy a + 20)) \<and>
         (30 \<le> energy a \<longrightarrow> in_int_range (energy a - 10)) \<and>
         in_int_range (energy (act a))"
  using assms
  by (cases "type a") (auto simp: in_int_range_def INT_MIN_def INT_MAX_def act_defs)

lemma consumeFood_in_int_range:
  assumes "in_int_range pool" and "0 \<le> foodConsumption a"
  shows "(foodConsumption a \<le> pool \<longrightarrow> in_int_range (pool - foodConsumption a)) \<and>
         in_int_range (snd (consumeFood a pool))"
  using assms
  by (auto simp: in_int_range_def INT_MIN_def INT_MAX_def consumeFood_def)

end
